theory Spec2Isabelle
  imports Complex_Main "HOL-Library.Char_ord" "HOL-Library.List_Lexorder"
begin

section \<open>The ERP data the script reads\<close>

text \<open>
  The script \<^verbatim>\<open>scripts/odoo-bulk-unreserve.py\<close> is pasted into an Odoo shell and works on
  four tables through the ORM. A record of a table is a row of field values; a record-set is
  a list of rows, in the order the ORM returns them. A many-to-one field that is not set
  (Odoo's \<^verbatim>\<open>False\<close>) is \<open>None\<close>. Odoo Float fields are taken as exact reals: the
  rounding of binary floating point is not part of this model. Dates are ISO-8601 strings,
  compared lexicographically, which is their chronological order.
\<close>

record move =
  move_id :: nat
  state :: string
  date :: string
  sale_line_id :: "nat option"
  product_id :: nat
  picking_id :: "nat option"

record quant =
  quant_product_id :: nat
  location_id :: nat
  quantity :: real
  reserved_quantity :: real

text \<open>
  \<open>stock_move\<close> and \<open>stock_quant\<close> are the tables \<^verbatim>\<open>stock.move\<close> and
  \<^verbatim>\<open>stock.quant\<close>; \<open>usage\<close> is the field \<^verbatim>\<open>usage\<close> of
  \<^verbatim>\<open>stock.location\<close> by location id, \<open>default_code\<close> the field
  \<^verbatim>\<open>default_code\<close> of \<^verbatim>\<open>product.product\<close> by product id.
\<close>

record erp =
  stock_move :: "move list"
  stock_quant :: "quant list"
  usage :: "nat \<Rightarrow> string"
  default_code :: "nat \<Rightarrow> string option"

section \<open>The ORM operations the script calls\<close>

text \<open>
  A search domain is a list of leaves \<^verbatim>\<open>(field, operator, value)\<close>, joined by an
  implicit \<^verbatim>\<open>and\<close>. Only the four operators the script writes are modelled.
\<close>

datatype val = Unset | Str string | Ident nat | Strs "string list"

datatype oper = In | Lt | Ne | Eq

datatype move_field = F_state | F_date | F_sale_line_id

datatype quant_field = F_product_id | F_location_id_usage

fun leaf_holds :: "val \<Rightarrow> oper \<Rightarrow> val \<Rightarrow> bool" where
  "leaf_holds (Str s) In (Strs xs) = (s \<in> set xs)"
| "leaf_holds (Str d) Lt (Str c) = (d < c)"
| "leaf_holds v Ne w = (v \<noteq> w)"
| "leaf_holds v Eq w = (v = w)"
| "leaf_holds _ _ _ = False"

definition search :: "('r \<Rightarrow> 'f \<Rightarrow> val) \<Rightarrow> ('f \<times> oper \<times> val) list \<Rightarrow> 'r list \<Rightarrow> 'r list" where
  "search rd domain tbl =
     filter (\<lambda>r. list_all (\<lambda>(f, opr, v). leaf_holds (rd r f) opr v) domain) tbl"

fun read_move :: "move \<Rightarrow> move_field \<Rightarrow> val" where
  "read_move m F_state = Str (state m)"
| "read_move m F_date = Str (date m)"
| "read_move m F_sale_line_id = (case sale_line_id m of None \<Rightarrow> Unset | Some l \<Rightarrow> Ident l)"

fun read_quant :: "erp \<Rightarrow> quant \<Rightarrow> quant_field \<Rightarrow> val" where
  "read_quant e q F_product_id = Ident (quant_product_id q)"
| "read_quant e q F_location_id_usage = Str (usage e (location_id q))"

text \<open>
  \<^verbatim>\<open>mapped\<close> on a many-to-one field gives the related records without duplicates, in
  the order in which they are first met; records whose field is not set add nothing.
\<close>

fun unique :: "'a list \<Rightarrow> 'a list \<Rightarrow> 'a list" where
  "unique seen [] = []"
| "unique seen (x # xs) = (if x \<in> set seen then unique seen xs else x # unique (x # seen) xs)"

fun set_values :: "'a option list \<Rightarrow> 'a list" where
  "set_values [] = []"
| "set_values (None # xs) = set_values xs"
| "set_values (Some x # xs) = x # set_values xs"

definition mapped :: "('r \<Rightarrow> nat option) \<Rightarrow> 'r list \<Rightarrow> nat list" where
  "mapped f rs = unique [] (set_values (map f rs))"

text \<open>Python's \<^verbatim>\<open>sum\<close>: a left fold from 0.\<close>

definition py_sum :: "real list \<Rightarrow> real" where
  "py_sum xs = foldl (+) 0 xs"

section \<open>Formatting\<close>

definition ljust :: "nat \<Rightarrow> string \<Rightarrow> string" where
  "ljust w s = s @ replicate (w - length s) CHR '' ''"

definition rjust :: "nat \<Rightarrow> string \<Rightarrow> string" where
  "rjust w s = replicate (w - length s) CHR '' '' @ s"

definition digit :: "nat \<Rightarrow> char" where
  "digit d = ''0123456789'' ! (d mod 10)"

function str_nat :: "nat \<Rightarrow> string" where
  "str_nat n = (if n < 10 then [digit n] else str_nat (n div 10) @ [digit (n mod 10)])"
  by pat_completeness auto
termination
  by (relation "measure id") auto

declare str_nat.simps [simp del]

text \<open>
  The format \<^verbatim>\<open>.0f\<close> rounds to the nearest integer, a tie to the even one, and writes
  the sign of a negative number; \<^verbatim>\<open>+.0f\<close> writes the sign of every number.
\<close>

definition round_half_even :: "real \<Rightarrow> int" where
  "round_half_even x =
     (let f = \<lfloor>x\<rfloor>; r = x - of_int f
      in if r < 1 / 2 then f else if 1 / 2 < r then f + 1 else if even f then f else f + 1)"

definition fmt_0f :: "bool \<Rightarrow> real \<Rightarrow> string" where
  "fmt_0f signed x =
     (if x < 0 then ''-'' else if signed then ''+'' else '''') @ str_nat (nat (round_half_even \<bar>x\<bar>))"

text \<open>\<^verbatim>\<open>s or 'N/A'\<close>: \<^verbatim>\<open>False\<close> and the empty string are both replaced.\<close>

definition or_na :: "string option \<Rightarrow> string" where
  "or_na s = (case s of None \<Rightarrow> ''N/A'' | Some t \<Rightarrow> if t = [] then ''N/A'' else t)"

definition nl :: char where
  "nl = CHR 0x0A"

definition check_mark :: string where
  "check_mark = [CHR 0xE2, CHR 0x9C, CHR 0x93]"

section \<open>The script\<close>

text \<open>
  What a run does to the outside is a trace of events: a line printed, the release
  \<^verbatim>\<open>do_unreserve()\<close> called on a record-set of pickings, \<^verbatim>\<open>env.cr.commit()\<close>.
\<close>

datatype event = Print string | Unreserve "nat list" | Commit

text \<open>An entry of the dictionary \<^verbatim>\<open>before_state\<close>, with a field for each of its keys.\<close>

record snapshot =
  snap_sku :: "string option"
  snap_on_hand :: real
  snap_reserved :: real
  snap_available :: real
  snap_stuck_moves :: nat

text \<open>
  A Python dictionary keeps its keys in the order in which they were first stored; storing
  under a key it has replaces the value where it stands.
\<close>

fun dict_set :: "'k \<Rightarrow> 'v \<Rightarrow> ('k \<times> 'v) list \<Rightarrow> ('k \<times> 'v) list" where
  "dict_set k v [] = [(k, v)]"
| "dict_set k v ((k', v') # d) = (if k' = k then (k, v) # d else (k', v') # dict_set k v d)"

definition cutoff_date :: string where
  "cutoff_date = ''2024-01-01''"

definition DO_UNRESERVE :: bool where
  "DO_UNRESERVE = True"

definition batch_size :: nat where
  "batch_size = 100"

definition stuck_moves :: "string \<Rightarrow> erp \<Rightarrow> move list" where
  "stuck_moves cutoff e =
     search read_move
       [(F_state, In, Strs [''assigned'', ''confirmed'', ''waiting'', ''partially_available'']),
        (F_date, Lt, Str cutoff),
        (F_sale_line_id, Ne, Unset)]
       (stock_move e)"

definition internal_quants :: "erp \<Rightarrow> nat \<Rightarrow> quant list" where
  "internal_quants e pid =
     search (read_quant e)
       [(F_product_id, Eq, Ident pid),
        (F_location_id_usage, Eq, Str ''internal'')]
       (stock_quant e)"

definition table_header :: "string \<Rightarrow> string" where
  "table_header last_column =
     ljust 30 ''SKU'' @ '' '' @ rjust 12 ''On Hand'' @ '' '' @ rjust 12 ''Reserved'' @ '' '' @
     rjust 12 ''Available'' @ '' '' @ rjust 12 last_column"

definition before_row :: "string option \<Rightarrow> real \<Rightarrow> real \<Rightarrow> real \<Rightarrow> nat \<Rightarrow> string" where
  "before_row code on_hand reserved available prod_stuck =
     ljust 30 (or_na code) @ '' '' @ rjust 12 (fmt_0f False on_hand) @ '' '' @
     rjust 12 (fmt_0f False reserved) @ '' '' @ rjust 12 (fmt_0f False available) @ '' '' @
     rjust 12 (str_nat prod_stuck)"

definition after_row :: "string option \<Rightarrow> real \<Rightarrow> real \<Rightarrow> real \<Rightarrow> real \<Rightarrow> string" where
  "after_row code on_hand reserved available delta =
     ljust 30 (or_na code) @ '' '' @ rjust 12 (fmt_0f False on_hand) @ '' '' @
     rjust 12 (fmt_0f False reserved) @ '' '' @ rjust 12 (fmt_0f False available) @ '' '' @
     rjust 12 (fmt_0f True delta)"

text \<open>Step 2, the loop over \<^verbatim>\<open>products[:20]\<close> (lines 35 to 53).\<close>

fun before_loop ::
  "erp \<Rightarrow> move list \<Rightarrow> nat list \<Rightarrow> (nat \<times> snapshot) list \<Rightarrow> event list \<Rightarrow>
   (nat \<times> snapshot) list \<times> event list" where
  "before_loop e sm [] before_state out = (before_state, out)"
| "before_loop e sm (p # products) before_state out =
     (let quants = internal_quants e p;
          on_hand = py_sum (map quantity quants);
          reserved = py_sum (map reserved_quantity quants);
          available = on_hand - reserved;
          prod_stuck = length (filter (\<lambda>m. product_id m = p) sm)
      in before_loop e sm products
           (dict_set p
              \<lparr>snap_sku = default_code e p, snap_on_hand = on_hand, snap_reserved = reserved,
               snap_available = available, snap_stuck_moves = prod_stuck\<rparr>
              before_state)
           (out @ [Print (before_row (default_code e p) on_hand reserved available prod_stuck)]))"

text \<open>Step 3, the loop \<^verbatim>\<open>for i in range(0, total, batch_size)\<close> (lines 73 to 76).\<close>

function batch_loop ::
  "(nat list \<Rightarrow> erp \<Rightarrow> erp) \<Rightarrow> nat list \<Rightarrow> nat \<Rightarrow> nat \<Rightarrow> erp \<Rightarrow> event list \<Rightarrow> erp \<times> event list" where
  "batch_loop do_unreserve pickings total' i e out =
     (if i < total' then
        (let batch = take batch_size (drop i pickings)
         in batch_loop do_unreserve pickings total' (i + batch_size) (do_unreserve batch e)
              (out @ [Unreserve batch,
                      Print (''  Processed '' @ str_nat (min (i + batch_size) total') @ ''/'' @
                             str_nat total')]))
      else (e, out))"
  by pat_completeness auto
termination
  by (relation "measure (\<lambda>(d, p, total', i, e, out). total' - i)") (auto simp: batch_size_def)

declare batch_loop.simps [simp del]

text \<open>Step 4, the loop over \<^verbatim>\<open>before_state.items()\<close> (lines 91 to 101).\<close>

fun after_loop :: "erp \<Rightarrow> (nat \<times> snapshot) list \<Rightarrow> event list \<Rightarrow> event list" where
  "after_loop e [] out = out"
| "after_loop e ((prod_id, before) # items) out =
     (let quants = internal_quants e prod_id;
          on_hand = py_sum (map quantity quants);
          reserved = py_sum (map reserved_quantity quants);
          available = on_hand - reserved;
          delta = available - snap_available before
      in after_loop e items
           (out @ [Print (after_row (snap_sku before) on_hand reserved available delta)]))"

text \<open>
  The whole script, from the ERP state it starts in to what it leaves: the ERP state, the
  dictionary \<^verbatim>\<open>before_state\<close> (a global of the shell session) and the trace of its
  events. The two literals edited in place, \<^verbatim>\<open>cutoff_date\<close> and
  \<^verbatim>\<open>DO_UNRESERVE\<close>, are arguments; \<open>script\<close> is the run with the literals of the
  source. The release \<^verbatim>\<open>do_unreserve\<close> belongs to the ERP and is an argument too: any
  function from the pickings and the state to the next state.
\<close>

record outcome =
  erp_of :: erp
  before_state_of :: "(nat \<times> snapshot) list"
  trace_of :: "event list"

definition bulk_unreserve ::
  "(nat list \<Rightarrow> erp \<Rightarrow> erp) \<Rightarrow> string \<Rightarrow> bool \<Rightarrow> erp \<Rightarrow> outcome" where
  "bulk_unreserve do_unreserve cutoff flag e =
     (let sm = stuck_moves cutoff e;
          out1 = [Print (nl # ''Found '' @ str_nat (length sm) @ '' stuck moves before '' @ cutoff)];
          product_ids = mapped (\<lambda>m. Some (product_id m)) sm;
          products = product_ids;
          out2 = out1 @
            [Print (''Affecting '' @ str_nat (length products) @ '' unique products'' @ [nl]),
             Print (replicate 80 CHR ''=''),
             Print ''BEFORE UNRESERVE - Top 20 affected products:'',
             Print (replicate 80 CHR ''=''),
             Print (table_header ''Stuck Moves''),
             Print (replicate 80 CHR ''-'')];
          (before_state, out3) = before_loop e sm (take 20 products) [] out2;
          out4 = out3 @
            [Print (nl # replicate 80 CHR ''=''),
             Print ''REVIEW ABOVE. To proceed with unreserve, set DO_UNRESERVE = True and re-run'',
             Print (replicate 80 CHR ''='')]
      in if flag then
           (let out5 = out4 @ [Print (nl # ''Unreserving...'')];
                pickings = mapped picking_id sm;
                out6 = out5 @ [Print (''Processing '' @ str_nat (length pickings) @ '' pickings...'')];
                total' = length pickings;
                (e', out7) = batch_loop do_unreserve pickings total' 0 e out6;
                out8 = out7 @
                  [Commit,
                   Print (nl # check_mark @ '' Unreserve complete!''),
                   Print (nl # replicate 80 CHR ''=''),
                   Print ''AFTER UNRESERVE:'',
                   Print (replicate 80 CHR ''=''),
                   Print (table_header ''Delta''),
                   Print (replicate 80 CHR ''-'')];
                out9 = after_loop e' before_state out8
            in \<lparr>erp_of = e', before_state_of = before_state,
                trace_of = out9 @
                  [Print (nl # check_mark @
                          '' Done! Available inventory increased by the delta shown.'')]\<rparr>)
         else
           \<lparr>erp_of = e, before_state_of = before_state,
            trace_of = out4 @
              [Print (nl # ''DO_UNRESERVE is False - no changes made.''),
               Print ''To execute: change DO_UNRESERVE = True and paste script again.'']\<rparr>)"

definition script :: "(nat list \<Rightarrow> erp \<Rightarrow> erp) \<Rightarrow> erp \<Rightarrow> outcome" where
  "script do_unreserve e = bulk_unreserve do_unreserve cutoff_date DO_UNRESERVE e"

text \<open>The release calls of a trace, in order.\<close>

fun released :: "event list \<Rightarrow> nat list list" where
  "released [] = []"
| "released (Unreserve b # t) = b # released t"
| "released (_ # t) = released t"

section \<open>Notions for stating the results\<close>

text \<open>
  What one pass of each loop stores and prints, and the batches and events of the batch loop
  from index \<open>i\<close> on, written without the accumulators of the loops. The lemmas below prove
  that the loops compute exactly these.
\<close>

definition before_entry :: "erp \<Rightarrow> move list \<Rightarrow> nat \<Rightarrow> snapshot" where
  "before_entry e sm p =
     \<lparr>snap_sku = default_code e p,
      snap_on_hand = py_sum (map quantity (internal_quants e p)),
      snap_reserved = py_sum (map reserved_quantity (internal_quants e p)),
      snap_available = py_sum (map quantity (internal_quants e p)) -
                       py_sum (map reserved_quantity (internal_quants e p)),
      snap_stuck_moves = length (filter (\<lambda>m. product_id m = p) sm)\<rparr>"

definition before_line :: "snapshot \<Rightarrow> string" where
  "before_line s =
     before_row (snap_sku s) (snap_on_hand s) (snap_reserved s) (snap_available s)
       (snap_stuck_moves s)"

definition after_line :: "erp \<Rightarrow> nat \<times> snapshot \<Rightarrow> string" where
  "after_line e item =
     after_row (snap_sku (snd item))
       (py_sum (map quantity (internal_quants e (fst item))))
       (py_sum (map reserved_quantity (internal_quants e (fst item))))
       (py_sum (map quantity (internal_quants e (fst item))) -
        py_sum (map reserved_quantity (internal_quants e (fst item))))
       (py_sum (map quantity (internal_quants e (fst item))) -
        py_sum (map reserved_quantity (internal_quants e (fst item))) -
        snap_available (snd item))"

definition batches :: "nat list \<Rightarrow> nat \<Rightarrow> nat \<Rightarrow> nat list list" where
  "batches pickings total' i =
     map (\<lambda>k. take batch_size (drop (i + batch_size * k) pickings))
       [0..<(total' - i + (batch_size - 1)) div batch_size]"

definition batch_events :: "nat list \<Rightarrow> nat \<Rightarrow> nat \<Rightarrow> event list" where
  "batch_events pickings total' i =
     concat (map (\<lambda>k. [Unreserve (take batch_size (drop (i + batch_size * k) pickings)),
                        Print (''  Processed '' @
                               str_nat (min (i + batch_size * k + batch_size) total') @ ''/'' @
                               str_nat total')])
       [0..<(total' - i + (batch_size - 1)) div batch_size])"

text \<open>
  The products the selected moves touch, the dictionary the script builds from the first 20
  of them, the events of steps 1 and 2, and the pickings of the selected moves.
\<close>

definition affected :: "string \<Rightarrow> erp \<Rightarrow> nat list" where
  "affected c e = mapped (\<lambda>m. Some (product_id m)) (stuck_moves c e)"

definition recorded :: "string \<Rightarrow> erp \<Rightarrow> (nat \<times> snapshot) list" where
  "recorded c e = map (\<lambda>p. (p, before_entry e (stuck_moves c e) p)) (take 20 (affected c e))"

definition before_report :: "string \<Rightarrow> erp \<Rightarrow> event list" where
  "before_report c e =
     [Print (nl # ''Found '' @ str_nat (length (stuck_moves c e)) @ '' stuck moves before '' @ c),
      Print (''Affecting '' @ str_nat (length (affected c e)) @ '' unique products'' @ [nl]),
      Print (replicate 80 CHR ''=''),
      Print ''BEFORE UNRESERVE - Top 20 affected products:'',
      Print (replicate 80 CHR ''=''),
      Print (table_header ''Stuck Moves''),
      Print (replicate 80 CHR ''-'')] @
     map (\<lambda>item. Print (before_line (snd item))) (recorded c e) @
     [Print (nl # replicate 80 CHR ''=''),
      Print ''REVIEW ABOVE. To proceed with unreserve, set DO_UNRESERVE = True and re-run'',
      Print (replicate 80 CHR ''='')]"

definition pickings_of :: "string \<Rightarrow> erp \<Rightarrow> nat list" where
  "pickings_of c e = mapped picking_id (stuck_moves c e)"

text \<open>
  A small ERP state for evaluating the script: five moves, of which the first and the last
  are selected, and a release that clears the reservations of five units.
\<close>

definition demo_moves :: "move list" where
  "demo_moves =
     [\<lparr>move_id = 1, state = ''assigned'', date = ''2023-06-01 10:00:00'', sale_line_id = Some 11,
       product_id = 7, picking_id = Some 3\<rparr>,
      \<lparr>move_id = 2, state = ''done'', date = ''2023-06-01 10:00:00'', sale_line_id = Some 12,
       product_id = 7, picking_id = Some 3\<rparr>,
      \<lparr>move_id = 3, state = ''confirmed'', date = ''2024-01-01 00:00:00'', sale_line_id = Some 13,
       product_id = 8, picking_id = Some 4\<rparr>,
      \<lparr>move_id = 4, state = ''waiting'', date = ''2023-12-31 23:59:59'', sale_line_id = None,
       product_id = 8, picking_id = Some 4\<rparr>,
      \<lparr>move_id = 5, state = ''partially_available'', date = ''2023-12-31 23:59:59'',
       sale_line_id = Some 15, product_id = 9, picking_id = None\<rparr>]"

definition demo_quants :: "quant list" where
  "demo_quants =
     [\<lparr>quant_product_id = 7, location_id = 1, quantity = 10, reserved_quantity = 3\<rparr>,
      \<lparr>quant_product_id = 7, location_id = 2, quantity = 100, reserved_quantity = 0\<rparr>,
      \<lparr>quant_product_id = 7, location_id = 1, quantity = 5, reserved_quantity = 5\<rparr>,
      \<lparr>quant_product_id = 8, location_id = 1, quantity = 4, reserved_quantity = 1\<rparr>]"

definition demo_erp :: erp where
  "demo_erp =
     \<lparr>stock_move = demo_moves, stock_quant = demo_quants,
      usage = (\<lambda>l. if l = 1 then ''internal'' else ''customer''),
      default_code = (\<lambda>p. if p = 7 then Some ''SKU-7'' else None)\<rparr>"

definition demo_release :: "nat list \<Rightarrow> erp \<Rightarrow> erp" where
  "demo_release batch e =
     e\<lparr>stock_quant :=
         map (\<lambda>q. if reserved_quantity q = 5 then q\<lparr>reserved_quantity := 0\<rparr> else q)
           (stock_quant e)\<rparr>"

section \<open>The search domains and the ORM helpers\<close>

lemma stuck_moves_filter:
  "stuck_moves c e =
     filter (\<lambda>m. state m \<in> {''assigned'', ''confirmed'', ''waiting'', ''partially_available''} \<and>
                 date m < c \<and> sale_line_id m \<noteq> None) (stock_move e)"
  unfolding stuck_moves_def search_def
  by (rule filter_cong) (auto split: option.splits)

lemma internal_quants_filter:
  "internal_quants e p =
     filter (\<lambda>q. quant_product_id q = p \<and> usage e (location_id q) = ''internal'') (stock_quant e)"
  unfolding internal_quants_def search_def
  by (rule filter_cong) auto



lemma set_unique: "set (unique seen xs) = set xs - set seen"
  by (induction xs arbitrary: seen) auto

lemma distinct_unique: "distinct (unique seen xs)"
  by (induction xs arbitrary: seen) (auto simp: set_unique)

lemma unique_first:
  "unique seen xs =
     map (\<lambda>i. xs ! i) (filter (\<lambda>i. xs ! i \<notin> set seen \<union> set (take i xs)) [0..<length xs])"
proof (induction xs arbitrary: seen)
  case Nil
  then show ?case by simp
next
  case (Cons x xs)
  have upt: "[0..<length (x # xs)] = 0 # map Suc [0..<length xs]"
    by (simp add: upt_conv_Cons map_Suc_upt del: upt_Suc)
  show ?case
  proof (cases "x \<in> set seen")
    case True
    have "filter (\<lambda>i. xs ! i \<notin> set seen \<union> set (take i xs)) [0..<length xs] =
          filter (\<lambda>i. xs ! i \<notin> set seen \<and> xs ! i \<noteq> x \<and> xs ! i \<notin> set (take i xs)) [0..<length xs]"
      using True by (intro filter_cong) auto
    then show ?thesis
      unfolding upt using True by (simp add: Cons.IH filter_map comp_def)
  next
    case False
    have "filter (\<lambda>i. xs ! i \<notin> set (x # seen) \<union> set (take i xs)) [0..<length xs] =
          filter (\<lambda>i. xs ! i \<notin> set seen \<and> xs ! i \<noteq> x \<and> xs ! i \<notin> set (take i xs)) [0..<length xs]"
      by (intro filter_cong) auto
    then show ?thesis
      unfolding upt using False by (simp add: Cons.IH filter_map comp_def)
  qed
qed

section \<open>The loops\<close>

lemma before_loop_eq:
  "before_loop e sm ps bs out =
     (foldl (\<lambda>d p. dict_set p (before_entry e sm p) d) bs ps,
      out @ map (\<lambda>p. Print (before_line (before_entry e sm p))) ps)"
  by (induction ps arbitrary: bs out) (simp_all add: Let_def before_entry_def before_line_def)

lemma dict_set_fresh: "k \<notin> fst ` set d \<Longrightarrow> dict_set k v d = d @ [(k, v)]"
  by (induction d) auto

lemma dict_fill_distinct:
  "distinct ps \<Longrightarrow> set ps \<inter> fst ` set d = {} \<Longrightarrow>
   foldl (\<lambda>d p. dict_set p (f p) d) d ps = d @ map (\<lambda>p. (p, f p)) ps"
proof (induction ps arbitrary: d)
  case Nil
  then show ?case by simp
next
  case (Cons p ps)
  from Cons.prems have fresh: "p \<notin> fst ` set d" by auto
  have "set ps \<inter> fst ` set (d @ [(p, f p)]) = {}"
    using Cons.prems by auto
  with Cons.prems Cons.IH [of "d @ [(p, f p)]"] fresh show ?case
    by (simp add: dict_set_fresh)
qed

lemma after_loop_eq: "after_loop e items out = out @ map (\<lambda>item. Print (after_line e item)) items"
  by (induction items arbitrary: out) (auto simp: Let_def after_line_def)

lemma step100: "i < t \<Longrightarrow> (t - i + 99) div 100 = Suc ((t - (i + 100) + 99) div (100::nat))"
proof -
  assume lt: "i < t"
  have "t - i + 99 = (t - (i + 100) + 99) + 100 \<or> t - (i + 100) = 0" by arith
  then show ?thesis
  proof
    assume e: "t - i + 99 = (t - (i + 100) + 99) + 100"
    show ?thesis unfolding e by simp
  next
    assume z: "t - (i + 100) = 0"
    with lt have "t - i + 99 \<ge> 100" "t - i + 99 < 200" by arith+
    then have "(t - i + 99) div 100 = 1"
      by (simp add: div_nat_eqI)
    with z show ?thesis by simp
  qed
qed

lemma batch_count_step:
  "i < t \<Longrightarrow> (t - i + (batch_size - 1)) div batch_size =
     Suc ((t - (i + batch_size) + (batch_size - 1)) div batch_size)"
  unfolding batch_size_def using step100 [of i t] by simp

lemma batch_count_done: "\<not> i < t \<Longrightarrow> (t - i + (batch_size - 1)) div batch_size = 0"
  unfolding batch_size_def by simp

lemma upt_Suc_shift: "[0..<Suc n] = 0 # map Suc [0..<n]"
  by (simp add: upt_conv_Cons map_Suc_upt del: upt_Suc)

lemma batch_loop_eq:
  "batch_loop rel pk t i e out = (fold rel (batches pk t i) e, out @ batch_events pk t i)"
proof (induction rel pk t i e out rule: batch_loop.induct)
  case (1 rel pk t i e out)
  show ?case
  proof (cases "i < t")
    case True
    have b: "batches pk t i = take batch_size (drop i pk) # batches pk t (i + batch_size)"
      unfolding batches_def batch_count_step [OF True] upt_Suc_shift
      by (simp add: comp_def add.assoc)
    have ev: "batch_events pk t i =
        [Unreserve (take batch_size (drop i pk)),
         Print (''  Processed '' @ str_nat (min (i + batch_size) t) @ ''/'' @ str_nat t)] @
        batch_events pk t (i + batch_size)"
      unfolding batch_events_def batch_count_step [OF True] upt_Suc_shift
      by (simp add: comp_def add.assoc)
    show ?thesis
      using True "1.IH" [OF True refl]
      by (subst batch_loop.simps) (simp add: Let_def b ev)
  next
    case False
    have "batches pk t i = []" "batch_events pk t i = []"
      unfolding batches_def batch_events_def batch_count_done [OF False] by simp_all
    with False show ?thesis
      by (subst batch_loop.simps) simp
  qed
qed

section \<open>The run as a whole\<close>

lemma distinct_mapped: "distinct (mapped f rs)"
  by (simp add: mapped_def distinct_unique)

lemma dict_fill_take:
  "foldl (\<lambda>d p. dict_set p (f p) d) [] (take n (mapped g rs)) =
     map (\<lambda>p. (p, f p)) (take n (mapped g rs))"
  using dict_fill_distinct [of "take n (mapped g rs)" "[]" f]
  by (simp add: distinct_mapped)

lemma run_before_state: "before_state_of (bulk_unreserve rel c flag e) = recorded c e"
  by (simp add: bulk_unreserve_def Let_def before_loop_eq batch_loop_eq dict_fill_take
      recorded_def affected_def split: prod.splits)

lemma run_erp_False: "erp_of (bulk_unreserve rel c False e) = e"
  by (simp add: bulk_unreserve_def Let_def before_loop_eq split: prod.splits)

lemma run_erp_True:
  "erp_of (bulk_unreserve rel c True e) =
     fold rel (batches (pickings_of c e) (length (pickings_of c e)) 0) e"
  by (simp add: bulk_unreserve_def Let_def before_loop_eq batch_loop_eq pickings_of_def
      split: prod.splits)

lemma run_trace_False:
  "trace_of (bulk_unreserve rel c False e) =
     before_report c e @
     [Print (nl # ''DO_UNRESERVE is False - no changes made.''),
      Print ''To execute: change DO_UNRESERVE = True and paste script again.'']"
  by (simp add: bulk_unreserve_def Let_def before_loop_eq dict_fill_take before_report_def
      recorded_def affected_def comp_def split: prod.splits)

lemma run_trace_True:
  "trace_of (bulk_unreserve rel c True e) =
     before_report c e @
     [Print (nl # ''Unreserving...''),
      Print (''Processing '' @ str_nat (length (pickings_of c e)) @ '' pickings...'')] @
     batch_events (pickings_of c e) (length (pickings_of c e)) 0 @
     [Commit,
      Print (nl # check_mark @ '' Unreserve complete!''),
      Print (nl # replicate 80 CHR ''=''),
      Print ''AFTER UNRESERVE:'',
      Print (replicate 80 CHR ''=''),
      Print (table_header ''Delta''),
      Print (replicate 80 CHR ''-'')] @
     map (\<lambda>item. Print (after_line (erp_of (bulk_unreserve rel c True e)) item)) (recorded c e) @
     [Print (nl # check_mark @ '' Done! Available inventory increased by the delta shown.'')]"
  by (simp add: bulk_unreserve_def Let_def before_loop_eq batch_loop_eq after_loop_eq
      dict_fill_take before_report_def recorded_def affected_def pickings_of_def comp_def
      split: prod.splits)

section \<open>The events of a trace\<close>

lemma released_append: "released (a @ b) = released a @ released b"
  by (induction a rule: released.induct) auto

lemma released_prints: "released (map (\<lambda>x. Print (f x)) xs) = []"
  by (induction xs) auto

lemma released_before_report: "released (before_report c e) = []"
  by (simp add: before_report_def released_append released_prints)

lemma commit_before_report: "Commit \<notin> set (before_report c e)"
  by (auto simp: before_report_def)



lemma released_pairs:
  "released (concat (map (\<lambda>k. [Unreserve (f k), Print (g k)]) ks)) = map f ks"
  by (induction ks) auto

lemma released_batch_events: "released (batch_events pk t i) = batches pk t i"
  unfolding batch_events_def batches_def by (rule released_pairs)

lemma commit_pairs: "Commit \<notin> set (concat (map (\<lambda>k. [Unreserve (f k), Print (g k)]) ks))"
  by (induction ks) auto

lemma commit_batch_events: "Commit \<notin> set (batch_events pk t i)"
  unfolding batch_events_def by (rule commit_pairs)





lemma released_run:
  "released (trace_of (bulk_unreserve rel c True e)) =
     batches (pickings_of c e) (length (pickings_of c e)) 0"
  by (simp add: run_trace_True released_append released_before_report released_batch_events
      released_prints)

lemma commits_run: "count_list (trace_of (bulk_unreserve rel c True e)) Commit = 1"
proof -
  have z: "\<And>xs. Commit \<notin> set xs \<Longrightarrow> count_list xs Commit = 0"
    by simp
  show ?thesis
    by (simp add: run_trace_True z commit_before_report commit_batch_events image_iff)
qed

section \<open>The lines of the reports\<close>

lemma length_ljust: "w \<le> length (ljust w s)"
  by (simp add: ljust_def)

lemma length_rjust: "w \<le> length (rjust w s)"
  by (simp add: rjust_def)

lemma last_rjust: "s \<noteq> [] \<Longrightarrow> last (rjust w s) = last s"
  by (simp add: rjust_def)

lemma rjust_nonempty: "s \<noteq> [] \<Longrightarrow> rjust w s \<noteq> []"
  by (simp add: rjust_def)

lemma str_nat_nonempty: "str_nat n \<noteq> []"
  by (subst str_nat.simps) simp

lemma last_str_nat: "last (str_nat n) = digit (n mod 10)"
  by (subst str_nat.simps) simp

lemma digit_cases: "digit d \<in> set ''0123456789''"
proof -
  have "d mod 10 < length ''0123456789''" by simp
  then show ?thesis unfolding digit_def by (rule nth_mem)
qed

lemma length_before_line: "82 \<le> length (before_line s)"
  using length_ljust [of 30 "or_na (snap_sku s)"]
    length_rjust [of 12 "fmt_0f False (snap_on_hand s)"]
    length_rjust [of 12 "fmt_0f False (snap_reserved s)"]
    length_rjust [of 12 "fmt_0f False (snap_available s)"]
    length_rjust [of 12 "str_nat (snap_stuck_moves s)"]
  by (simp add: before_line_def before_row_def)

lemma last_before_line: "last (before_line s) \<in> set ''0123456789''"
  using digit_cases [of "snap_stuck_moves s mod 10"]
  by (simp add: before_line_def before_row_def last_rjust rjust_nonempty str_nat_nonempty
      last_str_nat)

lemma length_table_header: "82 \<le> length (table_header x)"
  using length_ljust [of 30 "''SKU''"] length_rjust [of 12 "''On Hand''"]
    length_rjust [of 12 "''Reserved''"] length_rjust [of 12 "''Available''"]
    length_rjust [of 12 x]
  by (simp add: table_header_def)

lemma last_table_header: "x \<noteq> [] \<Longrightarrow> last (table_header x) = last x"
  by (simp add: table_header_def last_rjust rjust_nonempty)

lemma short_not_before_line: "length x < 82 \<Longrightarrow> x \<noteq> before_line s"
  using length_before_line [of s] by auto

lemma short_not_table_header: "length x < 82 \<Longrightarrow> x \<noteq> table_header y"
  using length_table_header [of y] by auto

lemma not_replicate: "length x \<noteq> n \<Longrightarrow> x \<noteq> replicate n c"
  by auto

lemma after_title_not_before: "Print ''AFTER UNRESERVE:'' \<notin> set (before_report c e)"
  by (auto simp: before_report_def nl_def short_not_before_line short_not_table_header
      not_replicate)

lemma delta_header_not_before_line: "table_header ''Delta'' \<noteq> before_line s"
proof
  assume "table_header ''Delta'' = before_line s"
  then have "last (table_header ''Delta'') = last (before_line s)" by simp
  then have "last (before_line s) = CHR ''a''"
    by (simp add: last_table_header)
  with last_before_line [of s] show False
    by auto
qed

lemma delta_header_not_stuck_header: "table_header ''Delta'' \<noteq> table_header ''Stuck Moves''"
proof
  assume "table_header ''Delta'' = table_header ''Stuck Moves''"
  then have "last (table_header ''Delta'') = last (table_header ''Stuck Moves'')" by simp
  then show False by (simp add: last_table_header)
qed

lemma hd_table_header: "hd (table_header x) = CHR ''S''"
  by (simp add: table_header_def ljust_def)

lemma delta_header_not_before: "Print (table_header ''Delta'') \<notin> set (before_report c e)"
proof -
  have a: "\<And>x. hd x \<noteq> CHR ''S'' \<Longrightarrow> table_header ''Delta'' \<noteq> x"
    using hd_table_header by auto
  have b: "\<And>n c. c \<noteq> CHR ''S'' \<Longrightarrow> table_header ''Delta'' \<noteq> replicate (Suc n) c"
    using hd_table_header [of "''Delta''"] by (auto dest: arg_cong [where f = hd])
  have c: "(80::nat) = Suc 79" by simp
  show ?thesis
    unfolding before_report_def c
    using delta_header_not_before_line delta_header_not_stuck_header
    by (auto simp: nl_def a b)
qed

lemma unreserve_not_before: "Unreserve b \<notin> set (before_report c e)"
  by (auto simp: before_report_def)

lemma demo_pickings: "pickings_of cutoff_date demo_erp = [3]"
proof -
  have "map picking_id (stuck_moves cutoff_date demo_erp) = [Some 3, None]"
    by (simp add: stuck_moves_filter cutoff_date_def demo_erp_def demo_moves_def)
  then show ?thesis
    by (simp add: pickings_of_def mapped_def)
qed

lemma batches_single: "batches [p] (Suc 0) 0 = [[p]]"
  by (simp add: batches_def batch_size_def upt_rec)

lemma batches_none: "batches [] 0 0 = []"
  by (simp add: batches_def batch_size_def)

lemma batch_events_none: "batch_events [] 0 0 = []"
  by (simp add: batch_events_def batch_size_def)

lemma str_nat_0: "str_nat 0 = ''0''"
  by (simp add: str_nat.simps digit_def)

section \<open>The entries of the snapshot\<close>

lemma recorded_entry: "(p, s) \<in> set (recorded c e) \<Longrightarrow> s = before_entry e (stuck_moves c e) p"
  by (auto simp: recorded_def)

lemma before_report_row:
  "(p, s) \<in> set (recorded c e) \<Longrightarrow> Print (before_line s) \<in> set (before_report c e)"
  by (force simp: before_report_def)

lemma before_report_in_trace:
  "x \<in> set (before_report c e) \<Longrightarrow> x \<in> set (trace_of (bulk_unreserve rel c flag e))"
  by (cases flag) (simp_all add: run_trace_True run_trace_False)

lemma after_row_in_trace:
  "item \<in> set (recorded c e) \<Longrightarrow>
   Print (after_line (erp_of (bulk_unreserve rel c True e)) item)
     \<in> set (trace_of (bulk_unreserve rel c True e))"
  by (simp add: run_trace_True)

lemma set_values_Some: "set_values (map (\<lambda>m. Some (f m)) xs) = map f xs"
  by (induction xs) auto

lemma mapped_required: "mapped (\<lambda>m. Some (f m)) xs = unique [] (map f xs)"
  by (simp add: mapped_def set_values_Some)

lemma demo_stuck_products: "map product_id (stuck_moves cutoff_date demo_erp) = [7, 9]"
  by (simp add: stuck_moves_filter cutoff_date_def demo_erp_def demo_moves_def)

lemma demo_affected: "affected cutoff_date demo_erp = [7, 9]"
  by (simp add: affected_def mapped_required demo_stuck_products)



lemma demo_quants_7:
  "filter (\<lambda>q. quant_product_id q = 7 \<and> usage demo_erp (location_id q) = ''internal'')
     (stock_quant demo_erp) =
   [\<lparr>quant_product_id = 7, location_id = 1, quantity = 10, reserved_quantity = 3\<rparr>,
    \<lparr>quant_product_id = 7, location_id = 1, quantity = 5, reserved_quantity = 5\<rparr>]"
  by (simp add: demo_erp_def demo_quants_def)

lemma demo_quants_9:
  "filter (\<lambda>q. quant_product_id q = 9 \<and> usage demo_erp (location_id q) = ''internal'')
     (stock_quant demo_erp) = []"
  by (simp add: demo_erp_def demo_quants_def)

lemma demo_recorded:
  "recorded cutoff_date demo_erp =
     [(7, \<lparr>snap_sku = Some ''SKU-7'', snap_on_hand = 15, snap_reserved = 8, snap_available = 7,
           snap_stuck_moves = 1\<rparr>),
      (9, \<lparr>snap_sku = None, snap_on_hand = 0, snap_reserved = 0, snap_available = 0,
           snap_stuck_moves = 1\<rparr>)]"
proof -
  have f: "\<And>p. length (filter (\<lambda>m. product_id m = p) (stuck_moves cutoff_date demo_erp)) =
      length (filter (\<lambda>x. x = p) (map product_id (stuck_moves cutoff_date demo_erp)))"
    by (simp add: filter_map comp_def)
  have dc: "default_code demo_erp 7 = Some ''SKU-7''" "default_code demo_erp 9 = None"
    by (simp_all add: demo_erp_def)
  show ?thesis
    unfolding recorded_def demo_affected before_entry_def f demo_stuck_products
      internal_quants_filter
    by (simp add: demo_quants_7 demo_quants_9 py_sum_def dc)
qed

section \<open>The After report\<close>

lemma round_half_even_int: "round_half_even (real_of_int k) = k"
  by (simp add: round_half_even_def)



lemma fmt_0f_0: "fmt_0f False 0 = ''0''"
  by (simp add: fmt_0f_def round_half_even_def str_nat.simps digit_def)

lemma hd_fmt_0f_signed: "hd (fmt_0f True x) = (if x < 0 then CHR ''-'' else CHR ''+'')"
  by (simp add: fmt_0f_def)


lemma demo_after_quants_9:
  "filter (\<lambda>q. quant_product_id q = 9 \<and>
               usage (demo_release b demo_erp) (location_id q) = ''internal'')
     (stock_quant (demo_release b demo_erp)) = []"
  by (simp add: demo_release_def demo_erp_def demo_quants_def)

lemma demo_erp_after:
  "erp_of (bulk_unreserve demo_release cutoff_date True demo_erp) = demo_release [3] demo_erp"
  by (simp add: run_erp_True demo_pickings batches_single)

lemma py_sum_empty: "py_sum [] = 0"
  by (simp add: py_sum_def)




section \<open>The properties of the specification\<close>

text \<open>
  C1. The selection of step 1 returns exactly the moves of the table whose state is one of
  the four listed, whose date is strictly before the cutoff and whose sale order line is set:
  the rows that match, each once, in the order of the table, and no other row.
\<close>

theorem selector_exact:
  "stuck_moves c e =
     filter (\<lambda>m. state m \<in> {''assigned'', ''confirmed'', ''waiting'', ''partially_available''} \<and>
                 date m < c \<and> sale_line_id m \<noteq> None) (stock_move e) \<and>
   set (stuck_moves c e) =
     {m \<in> set (stock_move e).
        state m \<in> {''assigned'', ''confirmed'', ''waiting'', ''partially_available''} \<and>
        date m < c \<and> sale_line_id m \<noteq> None}"
  by (simp add: stuck_moves_filter)

theorem selector_exact_witness:
  "map move_id (stuck_moves cutoff_date demo_erp) = [1, 5]"
  using selector_exact [of cutoff_date demo_erp]
  by (simp add: cutoff_date_def demo_erp_def demo_moves_def)



text \<open>
  C3. The release is guarded by the flag, but the script as shipped sets the flag to
  \<^verbatim>\<open>True\<close> (line 63), against its own comment \<^verbatim>\<open>Change to True after reviewing\<close> and
  the message it prints: a run of the shipped script on the example state releases the
  picking 3, commits and leaves the reservation cleared, with no review in between.
\<close>

theorem shipped_script_releases:
  "DO_UNRESERVE \<and>
   released (trace_of (script demo_release demo_erp)) = [[3]] \<and>
   count_list (trace_of (script demo_release demo_erp)) Commit = 1 \<and>
   map reserved_quantity (stock_quant demo_erp) = [3, 0, 5, 1] \<and>
   map reserved_quantity (stock_quant (erp_of (script demo_release demo_erp))) = [3, 0, 0, 1]"
proof -
  have "map reserved_quantity (stock_quant (demo_release [3] demo_erp)) = [3, 0, 0, 1]"
    by (simp add: demo_release_def demo_erp_def demo_quants_def)
  moreover have "map reserved_quantity (stock_quant demo_erp) = [3, 0, 5, 1]"
    by (simp add: demo_erp_def demo_quants_def)
  ultimately show ?thesis
    by (simp add: script_def DO_UNRESERVE_def released_run commits_run run_erp_True
        demo_pickings batches_single)
qed

text \<open>
  C6. With the flag unset the run leaves the ERP state as it found it, calls no release and
  issues no commit, and prints neither the title nor the table header of the After report:
  after the review banner it prints the two lines that say that nothing was changed, and ends.
\<close>

theorem dry_run_frame:
  "let r = bulk_unreserve rel c False e
   in erp_of r = e \<and>
      released (trace_of r) = [] \<and>
      (\<forall>b. Unreserve b \<notin> set (trace_of r)) \<and>
      Commit \<notin> set (trace_of r) \<and>
      Print ''AFTER UNRESERVE:'' \<notin> set (trace_of r) \<and>
      Print (table_header ''Delta'') \<notin> set (trace_of r) \<and>
      (\<exists>pre. trace_of r = pre @
         [Print (nl # replicate 80 CHR ''=''),
          Print ''REVIEW ABOVE. To proceed with unreserve, set DO_UNRESERVE = True and re-run'',
          Print (replicate 80 CHR ''=''),
          Print (nl # ''DO_UNRESERVE is False - no changes made.''),
          Print ''To execute: change DO_UNRESERVE = True and paste script again.''])"
proof -
  have hd: "hd (table_header ''Delta'') = CHR ''S''" by (rule hd_table_header)
  have t1: "table_header ''Delta'' \<noteq> nl # ''DO_UNRESERVE is False - no changes made.''"
    using hd by (auto simp: nl_def)
  have t2: "table_header ''Delta'' \<noteq>
      ''To execute: change DO_UNRESERVE = True and paste script again.''"
    using hd by auto
  have ex: "\<exists>pre. trace_of (bulk_unreserve rel c False e) = pre @
         [Print (nl # replicate 80 CHR ''=''),
          Print ''REVIEW ABOVE. To proceed with unreserve, set DO_UNRESERVE = True and re-run'',
          Print (replicate 80 CHR ''=''),
          Print (nl # ''DO_UNRESERVE is False - no changes made.''),
          Print ''To execute: change DO_UNRESERVE = True and paste script again.'']"
    by (simp add: run_trace_False before_report_def)
  show ?thesis
    unfolding Let_def
    apply (intro conjI allI ex)
         apply (simp add: run_erp_False)
        apply (simp add: run_trace_False released_append released_before_report)
       apply (simp add: run_trace_False unreserve_not_before)
      apply (simp add: run_trace_False commit_before_report)
     apply (simp add: run_trace_False after_title_not_before nl_def)
    apply (simp add: run_trace_False delta_header_not_before t1 t2)
    done
qed

theorem dry_run_frame_witness:
  "erp_of (bulk_unreserve demo_release cutoff_date False demo_erp) = demo_erp \<and>
   released (trace_of (bulk_unreserve demo_release cutoff_date False demo_erp)) = [] \<and>
   Commit \<notin> set (trace_of (bulk_unreserve demo_release cutoff_date False demo_erp))"
  using dry_run_frame [of demo_release cutoff_date demo_erp]
  by (simp add: Let_def)

text \<open>
  C10. With the flag set and no move selected there is no picking and no release, and the
  ERP state is left as found; the commit is issued all the same, once, and both reports are
  printed with their titles and table headers and no row.
\<close>

theorem no_moves_run:
  "stuck_moves c e = [] \<Longrightarrow>
   (let r = bulk_unreserve rel c True e
    in released (trace_of r) = [] \<and>
       count_list (trace_of r) Commit = 1 \<and>
       erp_of r = e \<and>
       before_state_of r = [] \<and>
       trace_of r =
         [Print (nl # ''Found 0 stuck moves before '' @ c),
          Print (''Affecting 0 unique products'' @ [nl]),
          Print (replicate 80 CHR ''=''),
          Print ''BEFORE UNRESERVE - Top 20 affected products:'',
          Print (replicate 80 CHR ''=''),
          Print (table_header ''Stuck Moves''),
          Print (replicate 80 CHR ''-''),
          Print (nl # replicate 80 CHR ''=''),
          Print ''REVIEW ABOVE. To proceed with unreserve, set DO_UNRESERVE = True and re-run'',
          Print (replicate 80 CHR ''=''),
          Print (nl # ''Unreserving...''),
          Print ''Processing 0 pickings...'',
          Commit,
          Print (nl # check_mark @ '' Unreserve complete!''),
          Print (nl # replicate 80 CHR ''=''),
          Print ''AFTER UNRESERVE:'',
          Print (replicate 80 CHR ''=''),
          Print (table_header ''Delta''),
          Print (replicate 80 CHR ''-''),
          Print (nl # check_mark @ '' Done! Available inventory increased by the delta shown.'')])"
proof -
  assume none: "stuck_moves c e = []"
  have pk: "pickings_of c e = []" and af: "affected c e = []"
    by (simp_all add: pickings_of_def affected_def mapped_def none)
  have rc: "recorded c e = []"
    by (simp add: recorded_def af)
  show ?thesis
    unfolding Let_def
    apply (intro conjI)
        apply (simp add: released_run pk batches_none)
       apply (rule commits_run)
      apply (simp add: run_erp_True pk batches_none)
     apply (simp add: run_before_state rc)
    apply (simp add: run_trace_True before_report_def pk af rc none batch_events_none str_nat_0)
    done
qed

theorem no_moves_run_witness:
  "stuck_moves cutoff_date (demo_erp\<lparr>stock_move := []\<rparr>) = [] \<and>
   released (trace_of (bulk_unreserve demo_release cutoff_date True (demo_erp\<lparr>stock_move := []\<rparr>))) = [] \<and>
   count_list (trace_of (bulk_unreserve demo_release cutoff_date True (demo_erp\<lparr>stock_move := []\<rparr>)))
     Commit = 1 \<and>
   length (trace_of (bulk_unreserve demo_release cutoff_date True (demo_erp\<lparr>stock_move := []\<rparr>))) = 20"
proof -
  have none: "stuck_moves cutoff_date (demo_erp\<lparr>stock_move := []\<rparr>) = []"
    by (simp add: stuck_moves_filter)
  from no_moves_run [OF none, of demo_release] none show ?thesis
    by (simp add: Let_def)
qed





text \<open>
  C8. A product that has no quant in an internal location makes no step of the aggregation
  fail: the sums over no quant are 0, so the Before snapshot records on-hand, reserved and
  available as 0, and when the product has no such quant after the release, its After row
  shows 0 three times and as delta the negated available recorded before.
\<close>

theorem empty_aggregation:
  "(p, s) \<in> set (before_state_of (bulk_unreserve rel c flag e)) \<Longrightarrow>
   (let e' = erp_of (bulk_unreserve rel c flag e)
    in py_sum [] = 0 \<and>
       (filter (\<lambda>q. quant_product_id q = p \<and> usage e (location_id q) = ''internal'')
          (stock_quant e) = [] \<longrightarrow>
        snap_on_hand s = 0 \<and> snap_reserved s = 0 \<and> snap_available s = 0 \<and>
        Print (before_row (default_code e p) 0 0 0 (snap_stuck_moves s))
          \<in> set (trace_of (bulk_unreserve rel c flag e))) \<and>
       (flag \<and>
        filter (\<lambda>q. quant_product_id q = p \<and> usage e' (location_id q) = ''internal'')
          (stock_quant e') = [] \<longrightarrow>
        Print (after_row (snap_sku s) 0 0 0 (0 - snap_available s))
          \<in> set (trace_of (bulk_unreserve rel c flag e))))"
proof -
  assume "(p, s) \<in> set (before_state_of (bulk_unreserve rel c flag e))"
  then have rec: "(p, s) \<in> set (recorded c e)"
    by (simp add: run_before_state)
  then have s: "s = before_entry e (stuck_moves c e) p"
    by (rule recorded_entry)
  define e' where "e' = erp_of (bulk_unreserve rel c flag e)"
  have before: "filter (\<lambda>q. quant_product_id q = p \<and> usage e (location_id q) = ''internal'')
          (stock_quant e) = [] \<longrightarrow>
        snap_on_hand s = 0 \<and> snap_reserved s = 0 \<and> snap_available s = 0 \<and>
        Print (before_row (default_code e p) 0 0 0 (snap_stuck_moves s))
          \<in> set (trace_of (bulk_unreserve rel c flag e))"
  proof
    assume "filter (\<lambda>q. quant_product_id q = p \<and> usage e (location_id q) = ''internal'')
          (stock_quant e) = []"
    then have iq: "internal_quants e p = []"
      by (simp add: internal_quants_filter)
    have z: "snap_on_hand s = 0" "snap_reserved s = 0" "snap_available s = 0"
      and sk: "snap_sku s = default_code e p"
      by (simp_all add: s before_entry_def iq py_sum_empty)
    have "Print (before_line s) \<in> set (trace_of (bulk_unreserve rel c flag e))"
      using rec by (intro before_report_in_trace before_report_row)
    then have "Print (before_row (default_code e p) 0 0 0 (snap_stuck_moves s))
          \<in> set (trace_of (bulk_unreserve rel c flag e))"
      by (simp add: before_line_def z sk)
    with z show "snap_on_hand s = 0 \<and> snap_reserved s = 0 \<and> snap_available s = 0 \<and>
        Print (before_row (default_code e p) 0 0 0 (snap_stuck_moves s))
          \<in> set (trace_of (bulk_unreserve rel c flag e))"
      by simp
  qed
  have after: "flag \<and>
        filter (\<lambda>q. quant_product_id q = p \<and> usage e' (location_id q) = ''internal'')
          (stock_quant e') = [] \<longrightarrow>
        Print (after_row (snap_sku s) 0 0 0 (0 - snap_available s))
          \<in> set (trace_of (bulk_unreserve rel c flag e))"
  proof
    assume a: "flag \<and>
        filter (\<lambda>q. quant_product_id q = p \<and> usage e' (location_id q) = ''internal'')
          (stock_quant e') = []"
    then have iq: "internal_quants e' p = []"
      by (simp add: internal_quants_filter)
    from a have flag: "flag = True" by simp
    have "Print (after_line e' (p, s)) \<in> set (trace_of (bulk_unreserve rel c flag e))"
      unfolding e'_def flag using rec by (rule after_row_in_trace)
    then show "Print (after_row (snap_sku s) 0 0 0 (0 - snap_available s))
          \<in> set (trace_of (bulk_unreserve rel c flag e))"
      by (simp add: after_line_def iq py_sum_empty)
  qed
  show ?thesis
    unfolding Let_def e'_def [symmetric]
    by (intro conjI py_sum_empty before after)
qed

theorem empty_aggregation_witness:
  "(9, \<lparr>snap_sku = None, snap_on_hand = 0, snap_reserved = 0, snap_available = 0,
        snap_stuck_moves = 1\<rparr>)
     \<in> set (before_state_of (bulk_unreserve demo_release cutoff_date True demo_erp)) \<and>
   filter (\<lambda>q. quant_product_id q = 9 \<and> usage demo_erp (location_id q) = ''internal'')
     (stock_quant demo_erp) = [] \<and>
   Print (before_row None 0 0 0 1)
     \<in> set (trace_of (bulk_unreserve demo_release cutoff_date True demo_erp)) \<and>
   Print (after_row None 0 0 0 0)
     \<in> set (trace_of (bulk_unreserve demo_release cutoff_date True demo_erp))"
proof -
  have m: "(9, \<lparr>snap_sku = None, snap_on_hand = 0, snap_reserved = 0, snap_available = 0,
        snap_stuck_moves = 1\<rparr>)
     \<in> set (before_state_of (bulk_unreserve demo_release cutoff_date True demo_erp))"
    by (simp add: run_before_state demo_recorded)
  have dc: "default_code demo_erp 9 = None"
    by (simp add: demo_erp_def)
  from empty_aggregation [OF m] have
    "Print (before_row None 0 0 0 1)
       \<in> set (trace_of (bulk_unreserve demo_release cutoff_date True demo_erp)) \<and>
     Print (after_row None 0 0 0 0)
       \<in> set (trace_of (bulk_unreserve demo_release cutoff_date True demo_erp))"
    by (simp add: Let_def demo_erp_after demo_quants_9 demo_after_quants_9 dc)
  with m show ?thesis
    by (simp add: demo_quants_9)
qed



end
